theory Spec2Isabelle
  imports Complex_Main "HOL-Library.Multiset" "HOL-Library.Product_Lexorder"
begin

section \<open>The BLS client of \<^verbatim>\<open>src/api_bsl.py\<close>\<close>

text \<open>
  The class \<^verbatim>\<open>APIbureau\<close> posts requests to the BLS time-series endpoint, glues the
  answers of several requests together, cleans the resulting table and writes it to a
  file. The model below follows the five methods that carry the logic:
  \<^verbatim>\<open>__generic_request\<close>, \<^verbatim>\<open>__single_series\<close>, \<^verbatim>\<open>__save_dataframe\<close>,
  \<^verbatim>\<open>__clean_dataframe\<close> and \<^verbatim>\<open>process_cpi_series\<close> (the leading underscores of
  the private methods are dropped). The network, standard output, the file system and
  the plot window are made explicit as a \<open>world\<close> that every method takes and returns;
  a Python exception is the \<open>Inl\<close> branch of the result.
\<close>

subsection \<open>Data\<close>

text \<open>
  The float produced by \<^verbatim>\<open>astype(float)\<close>. A finite value is kept as the exact
  decimal its literal denotes (Python stores the nearest double; rounding and overflow
  play no part in what follows).
\<close>

datatype fval = Finite rat | Infinity bool | NotANumber

text \<open>A cell of the \<^verbatim>\<open>value\<close> column: the string of the JSON row, or a float.\<close>

datatype cell = Str string | Flt fval

text \<open>
  A cell of the \<^verbatim>\<open>date\<close> column: the column does not exist yet (\<open>Absent\<close>), the
  null timestamp \<^verbatim>\<open>NaT\<close>, or the first day of a month of a year.
\<close>

datatype datecell = Absent | NaT | Stamp nat nat

text \<open>
  One observation. The API's rows carry \<^verbatim>\<open>year\<close>, \<^verbatim>\<open>period\<close> and \<^verbatim>\<open>value\<close>
  as strings (and \<^verbatim>\<open>periodName\<close>, \<^verbatim>\<open>footnotes\<close>, which no method reads and
  which are left out). A \<^verbatim>\<open>DataFrame\<close> is the list of its rows, in index order; the
  frame without rows is \<^verbatim>\<open>pd.DataFrame()\<close>, which has no columns either.
\<close>

record row =
  year :: string
  period :: string
  val :: cell
  date :: datecell

type_synonym dataframe = "row list"

definition empty :: "dataframe \<Rightarrow> bool" where
  "empty df \<longleftrightarrow> df = []"

definition from_records :: "row list \<Rightarrow> dataframe" where
  "from_records rs = rs"

datatype error =
    JSONDecodeError
  | KeyError string
  | IndexError
  | ValueError string

text \<open>
  The JSON body of an answer, as far as \<^verbatim>\<open>__generic_request\<close> reads it. A field is
  \<open>None\<close> when the key is not there. \<open>p_results\<close> is the path
  \<^verbatim>\<open>data["Results"]["series"][0]["data"]\<close>: the outer option is the key
  \<^verbatim>\<open>Results\<close>, the next one the key \<^verbatim>\<open>series\<close>, the list is the series list and
  the innermost option the key \<^verbatim>\<open>data\<close> of a series.
\<close>

record payload =
  p_status :: "string option"
  p_message :: "string list option"
  p_results :: "row list option list option option"

text \<open>An HTTP answer; \<open>json\<close> is \<open>None\<close> when the body does not decode.\<close>

record response =
  status_code :: int
  json :: "payload option"

record request =
  seriesid :: string
  startyear :: int
  endyear :: int

type_synonym server = "request \<Rightarrow> response"

datatype event =
    Request_failed "string list"
  | HTTP_error int
  | Unsupported_format string

datatype writer = To_excel | To_csv char

record plot_call =
  plot_df :: dataframe
  plot_start :: int
  plot_end :: int
  plot_name :: string

record world =
  requests :: "request list"
  stdout :: "event list"
  files :: "(string \<times> writer \<times> dataframe) list"
  shown :: "plot_call list"

type_synonym 'a outcome = "(error + 'a) \<times> world"

subsection \<open>The Request Executor\<close>

fun results_data :: "payload \<Rightarrow> error + row list" where
  "results_data data =
     (case p_results data of
        None \<Rightarrow> Inl (KeyError ''Results'')
      | Some None \<Rightarrow> Inl (KeyError ''series'')
      | Some (Some []) \<Rightarrow> Inl IndexError
      | Some (Some (None # _)) \<Rightarrow> Inl (KeyError ''data'')
      | Some (Some (Some rs # _)) \<Rightarrow> Inr rs)"

definition generic_request ::
  "server \<Rightarrow> string \<Rightarrow> int \<Rightarrow> int \<Rightarrow> world \<Rightarrow> (dataframe \<times> int) outcome" where
  "generic_request srv series_id start_year end_year w =
     (let payload = \<lparr>seriesid = series_id, startyear = start_year, endyear = end_year\<rparr>;
          response = srv payload;
          w1 = w\<lparr>requests := requests w @ [payload]\<rparr>
      in if status_code response = 200 then
           (case json response of
              None \<Rightarrow> (Inl JSONDecodeError, w1)
            | Some data \<Rightarrow>
                (case p_status data of
                   None \<Rightarrow> (Inl (KeyError ''status''), w1)
                 | Some s \<Rightarrow>
                     if s = ''REQUEST_SUCCEEDED'' then
                       (case results_data data of
                          Inl err \<Rightarrow> (Inl err, w1)
                        | Inr rs \<Rightarrow> (Inr (from_records rs, status_code response), w1))
                     else
                       (case p_message data of
                          None \<Rightarrow> (Inl (KeyError ''message''), w1)
                        | Some m \<Rightarrow>
                            (Inr ([], status_code response),
                             w1\<lparr>stdout := stdout w1 @ [Request_failed m]\<rparr>))))
         else (Inr ([], status_code response),
               w1\<lparr>stdout := stdout w1 @ [HTTP_error (status_code response)]\<rparr>))"

subsection \<open>The Range Splitter\<close>

text \<open>
  The loop \<^verbatim>\<open>for _ in range(...)\<close> of \<^verbatim>\<open>__single_series\<close>, by recursion on the
  number of iterations left. It threads the three variables the body assigns:
  \<^verbatim>\<open>start_year\<close>, \<^verbatim>\<open>list_df\<close> and \<^verbatim>\<open>status\<close> (unbound before the first
  iteration, hence an option). \<^verbatim>\<open>end_year\<close> is never assigned.
\<close>

definition integrity_error :: error where
  "integrity_error = ValueError ''Empty Datarfame, not by bad Request''"

fun series_loop ::
  "server \<Rightarrow> string \<Rightarrow> int \<Rightarrow> nat \<Rightarrow> int \<Rightarrow> dataframe list \<Rightarrow> int option \<Rightarrow> world
     \<Rightarrow> (dataframe list \<times> int option) outcome" where
  "series_loop srv ticker end_year 0 start_year list_df status w = (Inr (list_df, status), w)"
| "series_loop srv ticker end_year (Suc k) start_year list_df status w =
     (case generic_request srv ticker start_year end_year w of
        (Inl err, w') \<Rightarrow> (Inl err, w')
      | (Inr (df, status'), w') \<Rightarrow>
          if empty df \<and> status' = 200 then (Inl integrity_error, w')
          else series_loop srv ticker end_year k (start_year + 10) (list_df @ [df])
                 (Some status') w')"

text \<open>
  \<^verbatim>\<open>int((end_year - start_year)/10)+1\<close>: the quotient is only computed when the
  difference exceeds 10, where truncation and floor agree. (Python divides as floats;
  for year-sized integers the quotient is exact enough for \<^verbatim>\<open>int\<close> to give the
  integer quotient.)
\<close>

definition iterations :: "int \<Rightarrow> int \<Rightarrow> nat" where
  "iterations start_year end_year = nat ((end_year - start_year) div 10) + 1"

definition single_series ::
  "server \<Rightarrow> int \<Rightarrow> int \<Rightarrow> string \<Rightarrow> world \<Rightarrow> (dataframe \<times> int) outcome" where
  "single_series srv start_year end_year ticker w =
     (if end_year - start_year > 10 then
        (case series_loop srv ticker end_year (iterations start_year end_year)
                start_year [] None w of
           (Inl err, w') \<Rightarrow> (Inl err, w')
         | (Inr (list_df, status), w') \<Rightarrow>
             (case status of
                None \<Rightarrow> (Inl (ValueError ''No objects to concatenate''), w')
              | Some st \<Rightarrow> (Inr (concat list_df, st), w')))
      else generic_request srv ticker start_year end_year w)"

subsection \<open>The Writer\<close>

definition save_dataframe :: "dataframe \<Rightarrow> string \<Rightarrow> string \<Rightarrow> world \<Rightarrow> unit outcome" where
  "save_dataframe df file_extension name w =
     (if file_extension = ''xlsx'' then
        (Inr (), w\<lparr>files := files w @ [(name @ ''.xlsx'', To_excel, df)]\<rparr>)
      else if file_extension = ''csv'' then
        (Inr (), w\<lparr>files := files w @ [(name @ ''.csv'', To_csv (CHR '',''), df)]\<rparr>)
      else if file_extension = ''txt'' then
        (Inr (), w\<lparr>files := files w @ [(name @ ''.txt'', To_csv (CHR '';''), df)]\<rparr>)
      else
        (Inr (), w\<lparr>stdout := stdout w @ [Unsupported_format file_extension],
                     files := files w @ [(name @ ''.xlsx'', To_excel, df)]\<rparr>))"

subsection \<open>The Cleaner\<close>

definition digit :: "char \<Rightarrow> bool" where
  "digit c \<longleftrightarrow> 48 \<le> (of_char c :: nat) \<and> (of_char c :: nat) \<le> 57"

definition dec :: "string \<Rightarrow> nat" where
  "dec ds = foldl (\<lambda>n c. 10 * n + ((of_char c :: nat) - 48)) 0 ds"

text \<open>
  \<^verbatim>\<open>pd.to_datetime(s, errors='coerce', format='%Y-%m')\<close> on one string: four
  digits, a hyphen, and a month from 1 to 12 written with one or two digits, and
  nothing else; the month's first day has to lie in the range of a nanosecond
  timestamp (1677-09-21 to 2262-04-11). Whatever does not parse is \<^verbatim>\<open>NaT\<close>.
\<close>

definition to_datetime :: "string \<Rightarrow> datecell" where
  "to_datetime s =
     (let y = take 4 s; m = drop 5 s
      in if length y = 4 \<and> list_all digit y \<and> take 1 (drop 4 s) = ''-''
            \<and> (length m = 1 \<or> length m = 2) \<and> list_all digit m
            \<and> 1 \<le> dec m \<and> dec m \<le> 12
            \<and> 12 * 1677 + 10 \<le> 12 * dec y + dec m \<and> 12 * dec y + dec m \<le> 12 * 2262 + 4
         then Stamp (dec y) (dec m) else NaT)"

text \<open>
  \<^verbatim>\<open>df.sort_values(by='date')\<close>: ascending, nulls last (pandas' default
  \<^verbatim>\<open>na_position='last'\<close>). pandas sets the rows with a null date aside, in the
  order they have, sorts the others by their timestamps and puts the null rows behind
  them. The sort of the others is the default \<^verbatim>\<open>kind='quicksort'\<close>, which is not
  stable: in which order it leaves rows with the same date is up to the algorithm, and
  may depend on the whole column. The model therefore takes that choice as a parameter
  \<open>ties\<close>: given the column of sort keys and a position in it, a rank; rows with the
  same date come out by ascending rank, and rows with the same date and rank in the
  order they had. Every arrangement of tied rows comes from some \<open>ties\<close>, and nothing
  else is left open. The sort key orders triples lexicographically: timestamps first,
  by year and month, then the nulls.
\<close>

definition date_key :: "row \<Rightarrow> nat \<times> nat \<times> nat" where
  "date_key r = (case date r of Stamp y m \<Rightarrow> (0, y, m) | _ \<Rightarrow> (1, 0, 0))"

definition null_date :: "row \<Rightarrow> bool" where
  "null_date r \<longleftrightarrow> (case date r of Stamp y m \<Rightarrow> False | _ \<Rightarrow> True)"

type_synonym ties = "(nat \<times> nat \<times> nat) list \<Rightarrow> nat \<Rightarrow> nat"

definition sort_values :: "ties \<Rightarrow> dataframe \<Rightarrow> dataframe" where
  "sort_values ties df =
     map snd
       (sort_key
          (\<lambda>(i, r). (date_key r, if null_date r then 0 else ties (map date_key df) i))
          (enumerate 0 df))"

text \<open>
  Python's \<^verbatim>\<open>float(s)\<close> on a string: surrounding whitespace is dropped, a sign may
  lead, then either one of the words \<^verbatim>\<open>inf\<close>, \<^verbatim>\<open>infinity\<close>, \<^verbatim>\<open>nan\<close> (in any
  case) or a decimal literal: digits with an optional point and an optional exponent,
  at least one digit before or after the point, single underscores allowed between
  digits. \<open>None\<close> stands for the \<^verbatim>\<open>ValueError\<close>.
\<close>

definition space :: "char \<Rightarrow> bool" where
  "space c \<longleftrightarrow> (of_char c :: nat) = 32 \<or> (9 \<le> (of_char c :: nat) \<and> (of_char c :: nat) \<le> 13)"

definition strip :: "string \<Rightarrow> string" where
  "strip s = rev (dropWhile space (rev (dropWhile space s)))"

definition lower :: "char \<Rightarrow> char" where
  "lower c = (if 65 \<le> (of_char c :: nat) \<and> (of_char c :: nat) \<le> 90
              then char_of ((of_char c :: nat) + 32) else c)"

fun digitpart :: "string \<Rightarrow> string \<times> string" where
  "digitpart [] = ([], [])"
| "digitpart [c] = (if digit c then ([c], []) else ([], [c]))"
| "digitpart (c # u # cs) =
     (if \<not> digit c then ([], c # u # cs)
      else if u = CHR ''_'' then
        (case cs of
           [] \<Rightarrow> ([c], u # cs)
         | d # ds \<Rightarrow>
             if digit d then (c # fst (digitpart cs), snd (digitpart cs)) else ([c], u # cs))
      else (c # fst (digitpart (u # cs)), snd (digitpart (u # cs))))"

definition signed :: "string \<Rightarrow> bool \<times> string" where
  "signed s =
     (case s of
        [] \<Rightarrow> (False, [])
      | c # cs \<Rightarrow>
          if c = CHR ''-'' then (True, cs) else if c = CHR ''+'' then (False, cs) else (False, s))"

definition scaled :: "bool \<Rightarrow> string \<Rightarrow> int \<Rightarrow> fval" where
  "scaled neg ds ex =
     Finite ((if neg then - 1 else 1) * of_nat (dec ds)
             * (if 0 \<le> ex then 10 ^ nat ex else 1 / 10 ^ nat (- ex)))"

definition decimal :: "bool \<Rightarrow> string \<Rightarrow> fval option" where
  "decimal neg u =
     (let (ip, r1) = digitpart u;
          (fp, r2) = (case r1 of [] \<Rightarrow> ([], r1)
                      | c # r \<Rightarrow> if c = CHR ''.'' then digitpart r else ([], r1))
      in if ip = [] \<and> fp = [] then None
         else (case r2 of
                 [] \<Rightarrow> Some (scaled neg (ip @ fp) (- int (length fp)))
               | c # r \<Rightarrow>
                   if c = CHR ''e'' \<or> c = CHR ''E'' then
                     (let (eneg, r') = signed r; (ep, r3) = digitpart r'
                      in if ep = [] \<or> r3 \<noteq> [] then None
                         else Some (scaled neg (ip @ fp)
                                ((if eneg then - int (dec ep) else int (dec ep))
                                 - int (length fp))))
                   else None))"

definition py_float :: "string \<Rightarrow> fval option" where
  "py_float s =
     (let (neg, u) = signed (strip s); l = map lower u
      in if l = ''inf'' \<or> l = ''infinity'' then Some (Infinity neg)
         else if l = ''nan'' then Some NotANumber
         else decimal neg u)"

text \<open>
  \<^verbatim>\<open>astype(float)\<close> on the \<^verbatim>\<open>value\<close> column, cell by cell: a float stays, a
  string goes through \<^verbatim>\<open>float\<close>, and the first string that does not convert
  raises.
\<close>

definition float_error :: error where
  "float_error = ValueError ''could not convert string to float''"

fun cell_float :: "cell \<Rightarrow> error + cell" where
  "cell_float (Flt x) = Inr (Flt x)"
| "cell_float (Str s) = (case py_float s of None \<Rightarrow> Inl float_error | Some x \<Rightarrow> Inr (Flt x))"

fun astype_float :: "dataframe \<Rightarrow> error + dataframe" where
  "astype_float [] = Inr []"
| "astype_float (r # rs) =
     (case cell_float (val r) of
        Inl err \<Rightarrow> Inl err
      | Inr v \<Rightarrow>
          (case astype_float rs of
             Inl err \<Rightarrow> Inl err
           | Inr rs' \<Rightarrow> Inr (r\<lparr>val := v\<rparr> # rs')))"

text \<open>
  \<^verbatim>\<open>__clean_dataframe\<close>. A frame without rows has no column \<^verbatim>\<open>year\<close>, and the
  first subscript raises. \<^verbatim>\<open>df['year'].astype(str)\<close> is the year itself and
  \<^verbatim>\<open>.str[1:]\<close> drops the first character of the period. (The source adds the
  date column to the caller's frame in place; no caller reads that frame again.)
\<close>

definition assign_date :: "row \<Rightarrow> row" where
  "assign_date r = r\<lparr>date := to_datetime (year r @ ''-'' @ drop 1 (period r))\<rparr>"

definition clean_dataframe :: "ties \<Rightarrow> dataframe \<Rightarrow> error + dataframe" where
  "clean_dataframe ties df =
     (if df = [] then Inl (KeyError ''year'')
      else astype_float (sort_values ties (map assign_date df)))"

subsection \<open>The Plotter and the Facade\<close>

definition plot_series_cpi :: "dataframe \<Rightarrow> int \<Rightarrow> int \<Rightarrow> string \<Rightarrow> plot_call" where
  "plot_series_cpi df start_year end_year name =
     \<lparr>plot_df = df, plot_start = start_year, plot_end = end_year,
      plot_name = map (\<lambda>c. if c = CHR ''_'' then CHR '' '' else c) name\<rparr>"

definition process_cpi_series ::
  "server \<Rightarrow> ties \<Rightarrow> int \<Rightarrow> int \<Rightarrow> string \<Rightarrow> string \<Rightarrow> string \<Rightarrow> string \<Rightarrow> bool \<Rightarrow> world
     \<Rightarrow> unit outcome" where
  "process_cpi_series srv ties start_year end_year ticker output_filename plot_title
     format plot w =
     (case single_series srv start_year end_year ticker w of
        (Inl err, w1) \<Rightarrow> (Inl err, w1)
      | (Inr (df, status), w1) \<Rightarrow>
          if empty df \<and> status = 200 then (Inl integrity_error, w1)
          else (case clean_dataframe ties df of
                  Inl err \<Rightarrow> (Inl err, w1)
                | Inr df' \<Rightarrow>
                    (case save_dataframe df' format output_filename w1 of
                       (Inl err, w2) \<Rightarrow> (Inl err, w2)
                     | (Inr u, w2) \<Rightarrow>
                         if plot then
                           (Inr (), w2\<lparr>shown := shown w2 @
                              [plot_series_cpi df' start_year end_year plot_title]\<rparr>)
                         else (Inr (), w2))))"

subsection \<open>Notions used in the statements\<close>

text \<open>The request a call of the Request Executor posts.\<close>

definition posted :: "string \<Rightarrow> int \<Rightarrow> int \<Rightarrow> request" where
  "posted series_id start_year end_year =
     \<lparr>seriesid = series_id, startyear = start_year, endyear = end_year\<rparr>"

text \<open>What a call of the Request Executor returns; the world it runs in plays no part.\<close>

definition fetched :: "server \<Rightarrow> string \<Rightarrow> int \<Rightarrow> int \<Rightarrow> error + dataframe \<times> int" where
  "fetched srv ticker start_year end_year =
     fst (generic_request srv ticker start_year end_year
            \<lparr>requests = [], stdout = [], files = [], shown = []\<rparr>)"

text \<open>The call of the \<open>i\<close>-th iteration of the Splitter's loop.\<close>

definition window :: "server \<Rightarrow> string \<Rightarrow> int \<Rightarrow> int \<Rightarrow> nat \<Rightarrow> error + dataframe \<times> int" where
  "window srv ticker start_year end_year i =
     fetched srv ticker (start_year + 10 * int i) end_year"

text \<open>The number of calls the Splitter makes when none of them raises.\<close>

definition calls :: "int \<Rightarrow> int \<Rightarrow> nat" where
  "calls start_year end_year =
     (if end_year - start_year > 10 then iterations start_year end_year else 1)"

text \<open>
  An answer that carries every field \<^verbatim>\<open>__generic_request\<close> subscripts on its
  branch: any answer that is not 200; a 200 whose body decodes, has a status and, on
  success, the path to the rows, otherwise a message.
\<close>

definition well_formed :: "response \<Rightarrow> bool" where
  "well_formed r \<longleftrightarrow>
     status_code r \<noteq> 200 \<or>
     (case json r of
        None \<Rightarrow> False
      | Some data \<Rightarrow>
          (case p_status data of
             None \<Rightarrow> False
           | Some s \<Rightarrow>
               if s = ''REQUEST_SUCCEEDED'' then \<not> isl (results_data data)
               else p_message data \<noteq> None))"

text \<open>The answer the Splitter and the Facade refuse: no rows, status 200.\<close>

definition anomalous :: "dataframe \<times> int \<Rightarrow> bool" where
  "anomalous r \<longleftrightarrow> empty (fst r) \<and> snd r = 200"

text \<open>
  The windows the specification describes for a long span, read generously:
  \<open>\<lceil>span / 10\<rceil>\<close> of them, none longer than ten years, the first starting at
  \<open>start_year\<close> and each next one ten years later, none reaching beyond the start of
  the next, the last ending at \<open>end_year\<close>.
\<close>

definition ten_year_partition :: "int \<Rightarrow> int \<Rightarrow> request list \<Rightarrow> bool" where
  "ten_year_partition start_year end_year rs \<longleftrightarrow>
     int (length rs) = (end_year - start_year + 9) div 10
     \<and> list_all (\<lambda>r. endyear r - startyear r \<le> 10) rs
     \<and> map startyear rs = map (\<lambda>i. start_year + 10 * int i) [0..<length rs]
     \<and> list_all (\<lambda>(a, b). endyear a \<le> startyear b) (zip rs (tl rs))
     \<and> map endyear (drop (length rs - 1) rs) = [end_year]"

text \<open>A value cell that \<^verbatim>\<open>astype(float)\<close> converts, and the converted row.\<close>

definition numeric :: "cell \<Rightarrow> bool" where
  "numeric c \<longleftrightarrow> \<not> isl (cell_float c)"

definition floated :: "row \<Rightarrow> row" where
  "floated r = r\<lparr>val := (case cell_float (val r) of Inr v \<Rightarrow> v | Inl err \<Rightarrow> val r)\<rparr>"

subsection \<open>Sample inputs\<close>

definition w0 :: world where
  "w0 = \<lparr>requests = [], stdout = [], files = [], shown = []\<rparr>"

definition obs :: "string \<Rightarrow> string \<Rightarrow> string \<Rightarrow> row" where
  "obs y p v = \<lparr>year = y, period = p, val = Str v, date = Absent\<rparr>"

definition succeeded :: "row list \<Rightarrow> response" where
  "succeeded rs =
     \<lparr>status_code = 200,
      json = Some \<lparr>p_status = Some ''REQUEST_SUCCEEDED'', p_message = Some [],
                   p_results = Some (Some [Some rs])\<rparr>\<rparr>"

text \<open>A server that answers every request with the same single observation.\<close>

definition srv_one :: server where
  "srv_one req = succeeded [obs ''2020'' ''M01'' ''258.7'']"

text \<open>A server that reports a failure with status 200 and sends no message.\<close>

definition srv_no_message :: server where
  "srv_no_message req =
     \<lparr>status_code = 200,
      json = Some \<lparr>p_status = Some ''REQUEST_NOT_PROCESSED'', p_message = None,
                   p_results = None\<rparr>\<rparr>"

text \<open>A server that is down (HTTP 503) for requests starting in 2000 and fine otherwise.\<close>

definition srv_gap :: server where
  "srv_gap req =
     (if startyear req = 2000 then \<lparr>status_code = 503, json = None\<rparr>
      else succeeded [obs ''2020'' ''M02'' ''259.0'', obs ''2020'' ''M01'' ''258.7''])"

text \<open>A server that has rows for requests starting in 2000 and none for later ones.\<close>

definition srv_hole :: server where
  "srv_hole req =
     (if startyear req = 2000 then succeeded [obs ''2000'' ''M01'' ''168.8''] else succeeded [])"

text \<open>A server that refuses every request (HTTP 429).\<close>

definition srv_refuse :: server where
  "srv_refuse req = \<lparr>status_code = 429, json = None\<rparr>"

text \<open>Three observations out of order, one of them the annual average \<^verbatim>\<open>M13\<close>.\<close>

definition raw3 :: dataframe where
  "raw3 = [obs ''2020'' ''M02'' ''259.0'', obs ''2020'' ''M13'' ''258.8'',
           obs ''2020'' ''M01'' ''258.7'']"

definition cleaned3 :: dataframe where
  "cleaned3 =
     [\<lparr>year = ''2020'', period = ''M01'', val = Flt (Finite (2587 / 10)), date = Stamp 2020 1\<rparr>,
      \<lparr>year = ''2020'', period = ''M02'', val = Flt (Finite 259), date = Stamp 2020 2\<rparr>,
      \<lparr>year = ''2020'', period = ''M13'', val = Flt (Finite (1294 / 5)), date = NaT\<rparr>]"

text \<open>
  Two ways a sort may treat rows with the same date: leave them in the order they have,
  or put the later ones first.
\<close>

definition keep_ties :: ties where
  "keep_ties ks i = 0"

definition swap_ties :: ties where
  "swap_ties ks i = length ks - i"

text \<open>Seventeen different observations that all carry the date January 2020.\<close>

definition tied17 :: dataframe where
  "tied17 = map (obs ''2020'' ''M01'')
     [''201'', ''202'', ''203'', ''204'', ''205'', ''206'', ''207'', ''208'', ''209'',
      ''210'', ''211'', ''212'', ''213'', ''214'', ''215'', ''216'', ''217'']"

text \<open>The figures of these observations, as numbers.\<close>

definition figures :: "rat list" where
  "figures = [201, 202, 203, 204, 205, 206, 207, 208, 209,
              210, 211, 212, 213, 214, 215, 216, 217]"

definition january :: "rat \<Rightarrow> row" where
  "january v = \<lparr>year = ''2020'', period = ''M01'', val = Flt (Finite v), date = Stamp 2020 1\<rparr>"

section \<open>Properties\<close>

subsection \<open>The Request Executor and the loop\<close>

lemma generic_request_fst:
  "fst (generic_request srv ticker start_year end_year w) = fetched srv ticker start_year end_year"
  by (simp add: fetched_def generic_request_def Let_def split: option.splits sum.splits)

lemma generic_request_requests:
  "requests (snd (generic_request srv ticker start_year end_year w))
     = requests w @ [\<lparr>seriesid = ticker, startyear = start_year, endyear = end_year\<rparr>]"
  by (simp add: generic_request_def Let_def split: option.splits sum.splits)

lemma generic_request_files:
  "files (snd (generic_request srv ticker start_year end_year w)) = files w"
  by (simp add: generic_request_def Let_def split: option.splits sum.splits)

lemma generic_request_shown:
  "shown (snd (generic_request srv ticker start_year end_year w)) = shown w"
  by (simp add: generic_request_def Let_def split: option.splits sum.splits)

lemma generic_request_pair:
  "generic_request srv ticker start_year end_year w
     = (fetched srv ticker start_year end_year,
        snd (generic_request srv ticker start_year end_year w))"
  by (metis generic_request_fst prod.collapse)

lemma window_0: "window srv ticker start_year end_year 0 = fetched srv ticker start_year end_year"
  by (simp add: window_def)

lemma window_Suc:
  "window srv ticker start_year end_year (Suc i) = window srv ticker (start_year + 10) end_year i"
  by (simp add: window_def algebra_simps)

lemma series_loop_step:
  "series_loop srv ticker end_year (Suc k) start_year list_df status w =
     (case fetched srv ticker start_year end_year of
        Inl err \<Rightarrow> (Inl err, snd (generic_request srv ticker start_year end_year w))
      | Inr (df, status') \<Rightarrow>
          if empty df \<and> status' = 200
          then (Inl integrity_error, snd (generic_request srv ticker start_year end_year w))
          else series_loop srv ticker end_year k (start_year + 10) (list_df @ [df])
                 (Some status') (snd (generic_request srv ticker start_year end_year w)))"
  by (subst series_loop.simps, subst generic_request_pair) (simp split: sum.splits prod.splits)

lemma series_loop_files:
  "files (snd (series_loop srv ticker end_year k start_year list_df status w)) = files w"
proof (induction k arbitrary: start_year list_df status w)
  case 0
  show ?case by simp
next
  case (Suc k)
  show ?case
    by (simp only: series_loop_step) (simp add: Suc generic_request_files split: sum.splits prod.splits)
qed

lemma series_loop_shown:
  "shown (snd (series_loop srv ticker end_year k start_year list_df status w)) = shown w"
proof (induction k arbitrary: start_year list_df status w)
  case 0
  show ?case by simp
next
  case (Suc k)
  show ?case
    by (simp only: series_loop_step) (simp add: Suc generic_request_shown split: sum.splits prod.splits)
qed

lemma upt_shift: "map f [0..<Suc k] = f 0 # map (\<lambda>i. f (Suc i)) [0..<k]"
  by (simp add: upt_conv_Cons map_Suc_upt[symmetric] del: upt_Suc)

lemma series_loop_returns:
  assumes "map (window srv ticker start_year end_year) [0..<k] = map Inr rs"
    and "list_all (\<lambda>r. \<not> anomalous r) rs"
  shows "fst (series_loop srv ticker end_year k start_year list_df status w)
           = Inr (list_df @ map fst rs, if rs = [] then status else Some (snd (last rs)))"
  using assms
proof (induction k arbitrary: start_year list_df status w rs)
  case 0
  then show ?case by simp
next
  case (Suc k)
  from Suc.prems(1) obtain r rs' where rs: "rs = r # rs'"
    and r: "fetched srv ticker start_year end_year = Inr r"
    and rest: "map (window srv ticker (start_year + 10) end_year) [0..<k] = map Inr rs'"
    by (cases rs) (auto simp: upt_shift window_0 window_Suc simp del: upt_Suc)
  from Suc.prems(2) rs have ok: "\<not> anomalous r" and oks: "list_all (\<lambda>r. \<not> anomalous r) rs'"
    by simp_all
  obtain df st where dfst: "r = (df, st)" by (cases r)
  from ok dfst have guard: "\<not> (empty df \<and> st = 200)" by (simp add: anomalous_def)
  show ?case
    using Suc.IH[OF rest oks] guard
    by (simp only: series_loop_step) (simp add: r dfst rs)
qed

lemma series_loop_requests:
  assumes "fst (series_loop srv ticker end_year k start_year list_df status w) = Inr x"
  shows "requests (snd (series_loop srv ticker end_year k start_year list_df status w))
           = requests w @ map (\<lambda>i. \<lparr>seriesid = ticker, startyear = start_year + 10 * int i,
                                       endyear = end_year\<rparr>) [0..<k]"
  using assms
proof (induction k arbitrary: start_year list_df status w)
  case 0
  then show ?case by simp
next
  case (Suc k)
  show ?case
  proof (cases "fetched srv ticker start_year end_year")
    case (Inl err)
    with Suc.prems show ?thesis by (simp only: series_loop_step) simp
  next
    case (Inr r)
    obtain df st where dfst: "r = (df, st)" by (cases r)
    show ?thesis
    proof (cases "empty df \<and> st = 200")
      case True
      with Suc.prems Inr dfst show ?thesis by (simp only: series_loop_step) simp
    next
      case False
      with Suc.prems Inr dfst
      have "fst (series_loop srv ticker end_year k (start_year + 10) (list_df @ [df]) (Some st)
                   (snd (generic_request srv ticker start_year end_year w))) = Inr x"
        by (simp only: series_loop_step) simp
      from Suc.IH[OF this] False Inr dfst show ?thesis
        by (simp only: series_loop_step upt_shift)
           (auto simp: generic_request_requests algebra_simps)
    qed
  qed
qed

lemma series_loop_windows:
  assumes "fst (series_loop srv ticker end_year k start_year list_df status w) = Inr x"
  shows "\<exists>rs. map (window srv ticker start_year end_year) [0..<k] = map Inr rs
              \<and> list_all (\<lambda>r. \<not> anomalous r) rs"
  using assms
proof (induction k arbitrary: start_year list_df status w)
  case 0
  then show ?case by simp
next
  case (Suc k)
  show ?case
  proof (cases "fetched srv ticker start_year end_year")
    case (Inl err)
    with Suc.prems show ?thesis by (simp only: series_loop_step) simp
  next
    case (Inr r)
    obtain df st where dfst: "r = (df, st)" by (cases r)
    show ?thesis
    proof (cases "empty df \<and> st = 200")
      case True
      with Suc.prems Inr dfst show ?thesis by (simp only: series_loop_step) simp
    next
      case False
      with Suc.prems Inr dfst
      have "fst (series_loop srv ticker end_year k (start_year + 10) (list_df @ [df]) (Some st)
                   (snd (generic_request srv ticker start_year end_year w))) = Inr x"
        by (simp only: series_loop_step) simp
      from Suc.IH[OF this] obtain rs'
        where rest: "map (window srv ticker (start_year + 10) end_year) [0..<k] = map Inr rs'"
          and oks: "list_all (\<lambda>r. \<not> anomalous r) rs'"
        by blast
      have "map (window srv ticker start_year end_year) [0..<Suc k] = map Inr (r # rs')"
        using rest Inr by (simp add: upt_shift window_0 window_Suc del: upt_Suc)
      moreover have "list_all (\<lambda>r. \<not> anomalous r) (r # rs')"
        using oks False dfst by (simp add: anomalous_def)
      ultimately show ?thesis by blast
    qed
  qed
qed

lemma series_loop_raises:
  assumes "i < k"
    and "window srv ticker start_year end_year i = Inr (df, 200)"
    and "empty df"
    and "\<forall>j<i. \<not> isl (window srv ticker start_year end_year j)"
  shows "fst (series_loop srv ticker end_year k start_year list_df status w) = Inl integrity_error"
  using assms
proof (induction k arbitrary: i start_year list_df status w)
  case 0
  then show ?case by simp
next
  case (Suc k)
  show ?case
  proof (cases i)
    case 0
    with Suc.prems show ?thesis
      by (simp only: series_loop_step) (simp add: window_0)
  next
    case (Suc i')
    with Suc.prems(4) have "\<not> isl (window srv ticker start_year end_year 0)" by simp
    then obtain r where r: "fetched srv ticker start_year end_year = Inr r"
      by (cases "fetched srv ticker start_year end_year") (simp_all add: window_0)
    obtain df0 st0 where dfst: "r = (df0, st0)" by (cases r)
    have a: "i' < k" using Suc Suc.prems(1) by simp
    have b: "window srv ticker (start_year + 10) end_year i' = Inr (df, 200)"
      using Suc Suc.prems(2) by (simp add: window_Suc)
    have c: "\<forall>j<i'. \<not> isl (window srv ticker (start_year + 10) end_year j)"
      using Suc Suc.prems(4) by (auto simp: window_Suc[symmetric])
    show ?thesis
      using Suc.IH[OF a b Suc.prems(3) c]
      by (simp only: series_loop_step) (simp add: r dfst)
  qed
qed

lemma single_series_files:
  "files (snd (single_series srv start_year end_year ticker w)) = files w"
proof (cases "end_year - start_year > 10")
  case True
  have "files (snd (series_loop srv ticker end_year (iterations start_year end_year)
                      start_year [] None w)) = files w"
    by (rule series_loop_files)
  with True show ?thesis
    by (auto simp: single_series_def split: prod.splits sum.splits option.splits)
next
  case False
  then show ?thesis by (simp add: single_series_def generic_request_files)
qed

lemma single_series_shown:
  "shown (snd (single_series srv start_year end_year ticker w)) = shown w"
proof (cases "end_year - start_year > 10")
  case True
  have "shown (snd (series_loop srv ticker end_year (iterations start_year end_year)
                      start_year [] None w)) = shown w"
    by (rule series_loop_shown)
  with True show ?thesis
    by (auto simp: single_series_def split: prod.splits sum.splits option.splits)
next
  case False
  then show ?thesis by (simp add: single_series_def generic_request_shown)
qed

lemma single_series_long_fst:
  assumes "end_year - start_year > 10"
  shows "fst (single_series srv start_year end_year ticker w) =
           (case fst (series_loop srv ticker end_year (iterations start_year end_year)
                        start_year [] None w) of
              Inl err \<Rightarrow> Inl err
            | Inr (list_df, status) \<Rightarrow>
                (case status of
                   None \<Rightarrow> Inl (ValueError ''No objects to concatenate'')
                 | Some st \<Rightarrow> Inr (concat list_df, st)))"
  using assms by (simp add: single_series_def split: prod.splits sum.splits option.splits)

lemma single_series_long_snd:
  assumes "end_year - start_year > 10"
  shows "snd (single_series srv start_year end_year ticker w) =
           snd (series_loop srv ticker end_year (iterations start_year end_year)
                  start_year [] None w)"
  using assms by (simp add: single_series_def split: prod.splits sum.splits option.splits)

lemma process_raises:
  assumes "fst (single_series srv start_year end_year ticker w) = Inl err"
  shows "process_cpi_series srv ties start_year end_year ticker output_filename plot_title format
           plot w = (Inl err, snd (single_series srv start_year end_year ticker w))"
  using assms
  by (cases "single_series srv start_year end_year ticker w")
     (simp add: process_cpi_series_def)

lemma process_guard:
  assumes "fst (single_series srv start_year end_year ticker w) = Inr (df, 200)" and "empty df"
  shows "process_cpi_series srv ties start_year end_year ticker output_filename plot_title format
           plot w = (Inl integrity_error, snd (single_series srv start_year end_year ticker w))"
  using assms
  by (cases "single_series srv start_year end_year ticker w")
     (simp add: process_cpi_series_def)

lemmas run_defs = generic_request_def Let_def from_records_def succeeded_def empty_def

lemma process_writes:
  assumes "fst (single_series srv start_year end_year ticker w) = Inr (df, status)"
    and "\<not> (empty df \<and> status = 200)"
    and "clean_dataframe ties df = Inr cleaned"
  shows "fst (process_cpi_series srv ties start_year end_year ticker output_filename plot_title
                format plot w) = Inr ()
       \<and> files (snd (process_cpi_series srv ties start_year end_year ticker output_filename
                        plot_title format plot w))
           = files (snd (save_dataframe cleaned format output_filename w))"
proof -
  obtain w1 where run: "single_series srv start_year end_year ticker w = (Inr (df, status), w1)"
    using assms(1) by (cases "single_series srv start_year end_year ticker w") simp
  have "files w1 = files w"
    using single_series_files[of srv start_year end_year ticker w] run by simp
  then show ?thesis
    using assms(2,3) run
    by (simp add: process_cpi_series_def save_dataframe_def)
qed

subsection \<open>The Cleaner\<close>

lemma cell_float_Inl: "cell_float c = Inl err \<Longrightarrow> err = float_error"
  by (cases c) (auto split: option.splits)

lemma numeric_iff: "numeric c \<longleftrightarrow> (\<forall>s. c = Str s \<longrightarrow> py_float s \<noteq> None)"
  by (cases c) (auto simp: numeric_def split: option.splits)

lemma astype_float_ok:
  "list_all (\<lambda>r. numeric (val r)) df \<Longrightarrow> astype_float df = Inr (map floated df)"
proof (induction df)
  case Nil
  show ?case by simp
next
  case (Cons r df)
  then obtain v where "cell_float (val r) = Inr v"
    by (cases "cell_float (val r)") (simp_all add: numeric_def)
  with Cons show ?case by (simp add: floated_def)
qed

lemma astype_float_err:
  "\<not> list_all (\<lambda>r. numeric (val r)) df \<Longrightarrow> astype_float df = Inl float_error"
proof (induction df)
  case Nil
  then show ?case by simp
next
  case (Cons r df)
  show ?case
  proof (cases "cell_float (val r)")
    case (Inl err)
    then show ?thesis by (simp add: cell_float_Inl)
  next
    case (Inr v)
    with Cons.prems have "\<not> list_all (\<lambda>r. numeric (val r)) df" by (simp add: numeric_def)
    with Cons.IH Inr show ?thesis by simp
  qed
qed

lemma val_assign_date [simp]: "val (assign_date r) = val r"
  by (simp add: assign_date_def)

text \<open>What the sort does whatever the treatment of ties.\<close>

lemma mset_sort_values [simp]: "mset (sort_values ties df) = mset df"
proof -
  have "image_mset snd (mset (enumerate 0 df)) = mset df"
    by (simp only: mset_map[symmetric] map_snd_enumerate)
  then show ?thesis by (simp add: sort_values_def)
qed

lemma set_sort_values [simp]: "set (sort_values ties df) = set df"
  by (rule mset_eq_setD) simp

lemma length_sort_values [simp]: "length (sort_values ties df) = length df"
  by (simp add: sort_values_def)

lemma sorted_map_fst:
  fixes ps :: "('a::linorder \<times> 'b::linorder) list"
  shows "sorted ps \<Longrightarrow> sorted (map fst ps)"
  by (induction ps) (auto simp: less_eq_prod_def)

lemma sorted_sort_values: "sorted (map date_key (sort_values ties df))"
proof -
  let ?K = "\<lambda>(i, r). (date_key r, if null_date r then 0 else ties (map date_key df) i)"
  let ?zs = "sort_key ?K (enumerate 0 df)"
  have "sorted (map ?K ?zs)" by (rule sorted_sort_key)
  then have "sorted (map fst (map ?K ?zs))" by (rule sorted_map_fst)
  moreover have "map date_key (sort_values ties df) = map fst (map ?K ?zs)"
    by (simp add: sort_values_def case_prod_unfold comp_def)
  ultimately show ?thesis by (simp only:)
qed

lemma null_date_key: "null_date r \<longleftrightarrow> date_key r = (1, 0, 0)"
  by (cases "date r") (simp_all add: null_date_def date_key_def)

lemma null_sort_values: "filter null_date (sort_values ties df) = filter null_date df"
proof -
  let ?K = "\<lambda>(i, r). (date_key r, if null_date r then 0 else ties (map date_key df) i)"
  let ?xs = "enumerate 0 df"
  have k: "(?K z = ((1, 0, 0), 0)) = null_date (snd z)" for z
    by (cases z) (auto simp: null_date_key)
  have "filter (\<lambda>z. ?K z = ((1, 0, 0), 0)) (sort_key ?K ?xs)
          = filter (\<lambda>z. ?K z = ((1, 0, 0), 0)) ?xs"
    by (rule sort_key_stable)
  then have "filter (\<lambda>z. null_date (snd z)) (sort_key ?K ?xs)
               = filter (\<lambda>z. null_date (snd z)) ?xs"
    by (simp only: k)
  then have "map snd (filter (null_date \<circ> snd) (sort_key ?K ?xs))
               = map snd (filter (null_date \<circ> snd) ?xs)"
    by (simp add: comp_def)
  then have "filter null_date (map snd (sort_key ?K ?xs)) = filter null_date (map snd ?xs)"
    by (simp only: filter_map)
  then show ?thesis by (simp add: sort_values_def)
qed

lemma nulls_last:
  "sorted (map date_key xs) \<Longrightarrow> xs = filter (\<lambda>r. \<not> null_date r) xs @ filter null_date xs"
proof (induction xs)
  case Nil
  show ?case by simp
next
  case (Cons x xs)
  show ?case
  proof (cases "null_date x")
    case False
    with Cons show ?thesis by simp
  next
    case True
    have "null_date r" if "r \<in> set xs" for r
    proof -
      from Cons.prems that have "date_key x \<le> date_key r" by auto
      with True show ?thesis
        by (cases "date r") (simp_all add: null_date_key date_key_def)
    qed
    then have "filter (\<lambda>r. \<not> null_date r) xs = []" "filter null_date xs = xs"
      by (simp_all add: filter_empty_conv filter_id_conv)
    with True show ?thesis by simp
  qed
qed

text \<open>
  A table whose rows with the same timestamp are the same row has one arrangement only
  that is ascending with its null rows last in a given order.
\<close>

lemma arrangement_unique:
  assumes "mset ys = mset xs"
    and "sorted (map date_key ys)" and "sorted (map date_key xs)"
    and "filter null_date ys = filter null_date xs"
    and "\<forall>a\<in>set xs. \<forall>b\<in>set xs. date_key a = date_key b \<and> \<not> null_date a \<longrightarrow> a = b"
  shows "ys = xs"
proof -
  let ?dx = "filter (\<lambda>r. \<not> null_date r) xs" and ?dy = "filter (\<lambda>r. \<not> null_date r) ys"
  have m: "mset ?dx = mset ?dy" using assms(1) by simp
  have inj: "inj_on date_key (set ?dx)"
    using assms(5) by (auto simp: inj_on_def)
  have sy: "sorted (map date_key ?dy)" using assms(2) by (rule sorted_filter)
  have sx: "sorted (map date_key ?dx)" using assms(3) by (rule sorted_filter)
  have "sort_key date_key ?dx = ?dy" using m inj sy by (rule sort_key_inj_key_eq)
  moreover have "sort_key date_key ?dx = ?dx" using sx by (rule sort_key_id_if_sorted)
  ultimately have "?dy = ?dx" by simp
  with nulls_last[OF assms(2)] nulls_last[OF assms(3)] assms(4) show ?thesis by simp
qed

lemma numeric_sorted:
  "list_all (\<lambda>r. numeric (val r)) (sort_values ties (map assign_date df))
     \<longleftrightarrow> list_all (\<lambda>r. numeric (val r)) df"
  by (simp add: list_all_iff)

lemma clean_dataframe_cases:
  "clean_dataframe ties df =
     (if df = [] then Inl (KeyError ''year'')
      else if list_all (\<lambda>r. numeric (val r)) df
      then Inr (map floated (sort_values ties (map assign_date df)))
      else Inl float_error)"
  using astype_float_ok[of "sort_values ties (map assign_date df)"]
    astype_float_err[of "sort_values ties (map assign_date df)"]
  by (simp add: clean_dataframe_def numeric_sorted)

lemma date_key_floated [simp]: "date_key (floated r) = date_key r"
  by (simp add: date_key_def floated_def)

lemma null_date_floated [simp]: "null_date (floated r) = null_date r"
  by (simp add: null_date_def floated_def)

lemma floated_idem [simp]: "floated (floated r) = floated r"
  by (cases "val r") (auto simp: floated_def split: option.splits)

lemma numeric_floated [simp]: "numeric (val r) \<Longrightarrow> numeric (val (floated r))"
  by (cases "val r") (auto simp: floated_def numeric_def split: option.splits)

lemma assign_date_floated_assign [simp]:
  "assign_date (floated (assign_date r)) = floated (assign_date r)"
  by (simp add: assign_date_def floated_def)

lemma to_datetime_not_Absent [simp]: "to_datetime s \<noteq> Absent"
  by (simp add: to_datetime_def Let_def)

lemma digit_hyphen [simp]: "\<not> digit (CHR ''-'')"
  by (simp add: digit_def)

lemma to_datetime_13: "to_datetime (y @ ''-13'') = NaT"
proof -
  have short: "to_datetime (u @ ''-13'') = NaT" if "length u < 4" for u
  proof -
    from that consider "u = []" | a where "u = [a]" | a b where "u = [a, b]"
      | a b c where "u = [a, b, c]"
      by (cases u; cases "tl u"; cases "tl (tl u)"; cases "tl (tl (tl u))") auto
    then show ?thesis
      by cases (simp_all add: to_datetime_def Let_def)
  qed
  show ?thesis
  proof (cases "length y < 4")
    case True
    then show ?thesis by (rule short)
  next
    case False
    then obtain a b c d rest where y: "y = a # b # c # d # rest"
      by (cases y; cases "tl y"; cases "tl (tl y)"; cases "tl (tl (tl y))") auto
    show ?thesis
    proof (cases rest)
      case Nil
      with y show ?thesis by (simp add: to_datetime_def Let_def dec_def)
    next
      case (Cons e rest')
      with y show ?thesis by (simp add: to_datetime_def Let_def)
    qed
  qed
qed

lemmas float_defs = py_float_def decimal_def signed_def strip_def space_def lower_def
  digit_def dec_def scaled_def Let_def

lemmas clean_defs = clean_dataframe_def sort_values_def assign_date_def date_key_def
  null_date_def to_datetime_def obs_def keep_ties_def swap_ties_def

lemma clean_raw3: "clean_dataframe keep_ties raw3 = Inr cleaned3"
  by (simp add: raw3_def cleaned3_def clean_defs float_defs)

lemma year_period_floated [simp]:
  "year (floated r) = year r" "period (floated r) = period r" "date (floated r) = date r"
  by (simp_all add: floated_def)

lemma year_period_assign [simp]:
  "year (assign_date r) = year r" "period (assign_date r) = period r"
  "date (assign_date r) = to_datetime (year r @ ''-'' @ drop 1 (period r))"
  by (simp_all add: assign_date_def)

lemma same_key_same_date:
  "date_key a = date_key b \<Longrightarrow> date a \<noteq> Absent \<Longrightarrow> date b \<noteq> Absent \<Longrightarrow> date a = date b"
  by (cases "date a"; cases "date b") (simp_all add: date_key_def)

lemma sorted_same_mset:
  fixes as bs :: "'a::linorder list"
  assumes "mset as = mset bs" and "sorted as" and "sorted bs"
  shows "as = bs"
  using properties_for_sort[OF assms(1,2)] sorted_sort_id[OF assms(3)] by simp

subsection \<open>The claims\<close>

text \<open>
  C2. When \<open>end_year - start_year \<le> 10\<close>, the Splitter makes exactly one call of the
  Request Executor, for the whole span, and hands its result back unchanged: the same
  table and status (or the same exception), with exactly one request posted.
\<close>

theorem single_series_short_span:
  assumes "end_year - start_year \<le> 10"
  shows "single_series srv start_year end_year ticker w
           = generic_request srv ticker start_year end_year w
         \<and> requests (snd (single_series srv start_year end_year ticker w))
           = requests w @ [\<lparr>seriesid = ticker, startyear = start_year, endyear = end_year\<rparr>]"
proof -
  have one: "single_series srv start_year end_year ticker w
               = generic_request srv ticker start_year end_year w"
    using assms by (simp add: single_series_def)
  have "requests (snd (generic_request srv ticker start_year end_year w))
          = requests w @ [\<lparr>seriesid = ticker, startyear = start_year, endyear = end_year\<rparr>]"
    by (simp add: generic_request_def Let_def split: option.splits sum.splits)
  with one show ?thesis by simp
qed

theorem single_series_short_span_witness:
  "(2020::int) - 2015 \<le> 10
   \<and> single_series srv_one 2015 2020 ''CUSR0000SA0'' w0
       = (Inr ([obs ''2020'' ''M01'' ''258.7''], 200),
          w0\<lparr>requests := [\<lparr>seriesid = ''CUSR0000SA0'', startyear = 2015, endyear = 2020\<rparr>]\<rparr>)"
  using single_series_short_span
          [where start_year = 2015 and end_year = 2020 and srv = srv_one
             and ticker = "''CUSR0000SA0''" and w = w0]
  by (simp add: generic_request_def srv_one_def succeeded_def from_records_def w0_def Let_def)

text \<open>
  C4, as the code has it. For every call whose answer is well formed, the Request
  Executor ends in exactly one of three ways, each without raising: HTTP 200 with
  upstream status \<^verbatim>\<open>REQUEST_SUCCEEDED\<close> returns the rows and 200 and prints
  nothing; HTTP 200 with any other upstream status returns an empty table and 200 and
  prints the upstream message; any other HTTP status returns an empty table and that
  status and prints it. In each case exactly one request is posted. A call whose answer
  is not well formed, which is then a 200 answer, raises instead.
\<close>

theorem generic_request_outcomes:
  "(well_formed (srv (posted series_id start_year end_year)) \<longrightarrow>
      (status_code (srv (posted series_id start_year end_year)) = 200
          \<and> (\<exists>data rs. json (srv (posted series_id start_year end_year)) = Some data
                \<and> p_status data = Some ''REQUEST_SUCCEEDED''
                \<and> results_data data = Inr rs
                \<and> generic_request srv series_id start_year end_year w
                    = (Inr (rs, 200),
                       w\<lparr>requests := requests w @ [posted series_id start_year end_year]\<rparr>)))
       \<or> (status_code (srv (posted series_id start_year end_year)) = 200
          \<and> (\<exists>data s m. json (srv (posted series_id start_year end_year)) = Some data
                \<and> p_status data = Some s \<and> s \<noteq> ''REQUEST_SUCCEEDED''
                \<and> p_message data = Some m
                \<and> generic_request srv series_id start_year end_year w
                    = (Inr ([], 200),
                       w\<lparr>requests := requests w @ [posted series_id start_year end_year],
                          stdout := stdout w @ [Request_failed m]\<rparr>)))
       \<or> (status_code (srv (posted series_id start_year end_year)) \<noteq> 200
          \<and> generic_request srv series_id start_year end_year w
              = (Inr ([], status_code (srv (posted series_id start_year end_year))),
                 w\<lparr>requests := requests w @ [posted series_id start_year end_year],
                    stdout := stdout w @
                      [HTTP_error (status_code (srv (posted series_id start_year end_year)))]\<rparr>)))
   \<and> (\<not> well_formed (srv (posted series_id start_year end_year)) \<longrightarrow>
        status_code (srv (posted series_id start_year end_year)) = 200
        \<and> isl (fst (generic_request srv series_id start_year end_year w)))"
proof -
  let ?r = "srv (posted series_id start_year end_year)"
  let ?w1 = "w\<lparr>requests := requests w @ [posted series_id start_year end_year]\<rparr>"
  have raises: "status_code ?r = 200
      \<and> isl (fst (generic_request srv series_id start_year end_year w))"
    if bad: "\<not> well_formed ?r"
  proof -
    from bad have code: "status_code ?r = 200" by (simp add: well_formed_def)
    from bad have "isl (fst (generic_request srv series_id start_year end_year w))"
      by (cases "results_data (the (json ?r))")
         (auto simp: well_formed_def generic_request_def Let_def posted_def
               simp del: results_data.simps split: option.splits if_splits)
    with code show ?thesis by simp
  qed
  have returns: "(status_code ?r = 200
          \<and> (\<exists>data rs. json ?r = Some data
                \<and> p_status data = Some ''REQUEST_SUCCEEDED''
                \<and> results_data data = Inr rs
                \<and> generic_request srv series_id start_year end_year w = (Inr (rs, 200), ?w1)))
       \<or> (status_code ?r = 200
          \<and> (\<exists>data s m. json ?r = Some data
                \<and> p_status data = Some s \<and> s \<noteq> ''REQUEST_SUCCEEDED''
                \<and> p_message data = Some m
                \<and> generic_request srv series_id start_year end_year w
                    = (Inr ([], 200),
                       w\<lparr>requests := requests w @ [posted series_id start_year end_year],
                          stdout := stdout w @ [Request_failed m]\<rparr>)))
       \<or> (status_code ?r \<noteq> 200
          \<and> generic_request srv series_id start_year end_year w
              = (Inr ([], status_code ?r),
                 w\<lparr>requests := requests w @ [posted series_id start_year end_year],
                    stdout := stdout w @ [HTTP_error (status_code ?r)]\<rparr>))"
    if wf: "well_formed ?r"
  proof (cases "status_code ?r = 200")
    case False
    then show ?thesis
      by (simp add: generic_request_def Let_def posted_def)
  next
    case True
    with wf obtain data s where data: "json ?r = Some data"
      and s: "p_status data = Some s"
      and shape: "if s = ''REQUEST_SUCCEEDED'' then \<not> isl (results_data data)
                  else p_message data \<noteq> None"
      by (auto simp: well_formed_def split: option.splits)
    show ?thesis
    proof (cases "s = ''REQUEST_SUCCEEDED''")
      case succ: True
      with shape obtain rs where rs: "results_data data = Inr rs"
        by (cases "results_data data") simp_all
      have "generic_request srv series_id start_year end_year w = (Inr (rs, 200), ?w1)"
        using True data s succ rs
        by (simp add: generic_request_def Let_def from_records_def posted_def
                 del: results_data.simps)
      with True data s succ rs show ?thesis by blast
    next
      case fail: False
      with shape obtain m where m: "p_message data = Some m" by auto
      have "generic_request srv series_id start_year end_year w
              = (Inr ([], 200),
                 w\<lparr>requests := requests w @ [posted series_id start_year end_year],
                    stdout := stdout w @ [Request_failed m]\<rparr>)"
        using True data s fail m
        by (simp add: generic_request_def Let_def posted_def del: results_data.simps)
      with True data s fail m show ?thesis by blast
    qed
  qed
  from raises returns show ?thesis by blast
qed

theorem generic_request_outcomes_witness:
  "well_formed (srv_refuse (posted ''CUSR0000SA0'' 2015 2020))
   \<and> generic_request srv_refuse ''CUSR0000SA0'' 2015 2020 w0
       = (Inr ([], 429),
          w0\<lparr>requests := [\<lparr>seriesid = ''CUSR0000SA0'', startyear = 2015, endyear = 2020\<rparr>],
             stdout := [HTTP_error 429]\<rparr>)
   \<and> well_formed (srv_one (posted ''CUSR0000SA0'' 2015 2020))
   \<and> generic_request srv_one ''CUSR0000SA0'' 2015 2020 w0
       = (Inr ([obs ''2020'' ''M01'' ''258.7''], 200),
          w0\<lparr>requests := [\<lparr>seriesid = ''CUSR0000SA0'', startyear = 2015, endyear = 2020\<rparr>]\<rparr>)
   \<and> \<not> well_formed (srv_no_message (posted ''CUSR0000SA0'' 2015 2020))
   \<and> isl (fst (generic_request srv_no_message ''CUSR0000SA0'' 2015 2020 w0))"
proof -
  have wf: "well_formed (srv_refuse (posted ''CUSR0000SA0'' 2015 2020))"
    by (simp add: well_formed_def srv_refuse_def)
  have wf1: "well_formed (srv_one (posted ''CUSR0000SA0'' 2015 2020))"
    by (simp add: well_formed_def srv_one_def succeeded_def)
  have bad: "\<not> well_formed (srv_no_message (posted ''CUSR0000SA0'' 2015 2020))"
    by (simp add: well_formed_def srv_no_message_def)
  have a: "generic_request srv_refuse ''CUSR0000SA0'' 2015 2020 w0
       = (Inr ([], 429),
          w0\<lparr>requests := [\<lparr>seriesid = ''CUSR0000SA0'', startyear = 2015, endyear = 2020\<rparr>],
             stdout := [HTTP_error 429]\<rparr>)"
    using wf generic_request_outcomes
        [where srv = srv_refuse and series_id = "''CUSR0000SA0''"
           and start_year = 2015 and end_year = 2020 and w = w0]
    by (simp add: srv_refuse_def w0_def posted_def)
  have b: "generic_request srv_one ''CUSR0000SA0'' 2015 2020 w0
       = (Inr ([obs ''2020'' ''M01'' ''258.7''], 200),
          w0\<lparr>requests := [\<lparr>seriesid = ''CUSR0000SA0'', startyear = 2015, endyear = 2020\<rparr>]\<rparr>)"
    using wf1 generic_request_outcomes
        [where srv = srv_one and series_id = "''CUSR0000SA0''"
           and start_year = 2015 and end_year = 2020 and w = w0]
    by (simp add: srv_one_def succeeded_def w0_def posted_def)
  have c: "isl (fst (generic_request srv_no_message ''CUSR0000SA0'' 2015 2020 w0))"
    using bad generic_request_outcomes
        [where srv = srv_no_message and series_id = "''CUSR0000SA0''"
           and start_year = 2015 and end_year = 2020 and w = w0]
    by blast
  from wf wf1 bad a b c show ?thesis by blast
qed

text \<open>
  A 200 answer that reports a failure and has no \<^verbatim>\<open>message\<close> field is none of the
  three: \<^verbatim>\<open>data["message"]\<close> raises \<^verbatim>\<open>KeyError\<close>.
\<close>

theorem generic_request_outcomes_counterexample:
  "fst (generic_request srv_no_message ''CUSR0000SA0'' 2015 2020 w0) = Inl (KeyError ''message'')"
  by (simp add: generic_request_def srv_no_message_def Let_def)

text \<open>
  C8. The Writer never raises. Given \<^verbatim>\<open>xlsx\<close>, \<^verbatim>\<open>csv\<close> or \<^verbatim>\<open>txt\<close> it writes
  the table to \<open>name.extension\<close> as a spreadsheet, comma-separated or
  semicolon-separated and prints nothing; given anything else it prints the warning and
  writes \<open>name.xlsx\<close> as a spreadsheet.
\<close>

theorem save_dataframe_formats:
  "fst (save_dataframe df file_extension name w) = Inr ()
   \<and> (file_extension \<in> {''xlsx'', ''csv'', ''txt''} \<longrightarrow>
        files (snd (save_dataframe df file_extension name w))
          = files w @ [(name @ ''.'' @ file_extension,
                        (if file_extension = ''xlsx'' then To_excel
                         else if file_extension = ''csv'' then To_csv (CHR '','')
                         else To_csv (CHR '';'')), df)]
        \<and> stdout (snd (save_dataframe df file_extension name w)) = stdout w)
   \<and> (file_extension \<notin> {''xlsx'', ''csv'', ''txt''} \<longrightarrow>
        files (snd (save_dataframe df file_extension name w))
          = files w @ [(name @ ''.xlsx'', To_excel, df)]
        \<and> stdout (snd (save_dataframe df file_extension name w))
          = stdout w @ [Unsupported_format file_extension])"
  by (simp add: save_dataframe_def)

theorem save_dataframe_formats_witness:
  "''json'' \<notin> {''xlsx'', ''csv'', ''txt''}
   \<and> save_dataframe [obs ''2020'' ''M01'' ''258.7''] ''json'' ''X'' w0
       = (Inr (), w0\<lparr>stdout := [Unsupported_format ''json''],
                      files := [(''X.xlsx'', To_excel, [obs ''2020'' ''M01'' ''258.7''])]\<rparr>)
   \<and> ''txt'' \<in> {''xlsx'', ''csv'', ''txt''}
   \<and> files (snd (save_dataframe [obs ''2020'' ''M01'' ''258.7''] ''txt'' ''X'' w0))
       = [(''X.txt'', To_csv (CHR '';''), [obs ''2020'' ''M01'' ''258.7''])]"
  using save_dataframe_formats[of "[obs ''2020'' ''M01'' ''258.7'']" "''json''" "''X''" w0]
    save_dataframe_formats[of "[obs ''2020'' ''M01'' ''258.7'']" "''txt''" "''X''" w0]
  by (simp add: save_dataframe_def w0_def)

text \<open>
  C3. Whenever a call of the Request Executor that the operation reaches returns an
  empty table with status 200, \<^verbatim>\<open>process_cpi_series\<close> raises the integrity error
  and writes no file and shows no plot. For a span of more than ten years the check is
  the one inside the Splitter's loop, which raises for the window at hand; for a shorter
  span the Splitter returns and the Facade's own check raises, before the Cleaner runs.
\<close>

theorem empty_with_200_raises:
  assumes "i < calls start_year end_year"
    and "window srv ticker start_year end_year i = Inr (df, 200)"
    and "empty df"
    and "\<forall>j<i. \<not> isl (window srv ticker start_year end_year j)"
  shows "fst (process_cpi_series srv ties start_year end_year ticker output_filename plot_title
                format plot w) = Inl integrity_error
       \<and> files (snd (process_cpi_series srv ties start_year end_year ticker output_filename
                        plot_title format plot w)) = files w
       \<and> shown (snd (process_cpi_series srv ties start_year end_year ticker output_filename
                        plot_title format plot w)) = shown w
       \<and> (end_year - start_year > 10 \<longrightarrow>
            fst (single_series srv start_year end_year ticker w) = Inl integrity_error)"
proof (cases "end_year - start_year > 10")
  case True
  with assms(1) have "i < iterations start_year end_year" by (simp add: calls_def)
  from series_loop_raises[OF this assms(2,3,4)]
  have "fst (single_series srv start_year end_year ticker w) = Inl integrity_error"
    by (simp add: single_series_long_fst[OF True])
  then show ?thesis
    by (simp add: process_raises single_series_files single_series_shown)
next
  case False
  with assms(1) have "i = 0" by (simp add: calls_def)
  with assms(2) have "fetched srv ticker start_year end_year = Inr (df, 200)"
    by (simp add: window_0)
  with False have "fst (single_series srv start_year end_year ticker w) = Inr (df, 200)"
    by (simp add: single_series_def generic_request_fst)
  from process_guard[OF this assms(3)] False show ?thesis
    by (simp add: single_series_files single_series_shown)
qed

theorem empty_with_200_raises_witness:
  "(1::nat) < calls 2000 2023
   \<and> window srv_hole ''CUSR0000SAM'' 2000 2023 1 = Inr ([], 200)
   \<and> empty []
   \<and> \<not> isl (window srv_hole ''CUSR0000SAM'' 2000 2023 0)
   \<and> fst (process_cpi_series srv_hole keep_ties 2000 2023 ''CUSR0000SAM'' ''CPI_MEDICAL_CARE_2000_2023''
            ''CPI_MEDICAL_CARE'' ''txt'' True w0) = Inl integrity_error
   \<and> files (snd (process_cpi_series srv_hole keep_ties 2000 2023 ''CUSR0000SAM''
                   ''CPI_MEDICAL_CARE_2000_2023'' ''CPI_MEDICAL_CARE'' ''txt'' True w0)) = []
   \<and> fst (single_series srv_hole 2000 2023 ''CUSR0000SAM'' w0) = Inl integrity_error"
proof -
  have a: "(1::nat) < calls 2000 2023" by (simp add: calls_def iterations_def)
  have b: "window srv_hole ''CUSR0000SAM'' 2000 2023 1 = Inr ([], 200)"
    by (simp add: window_def fetched_def srv_hole_def run_defs)
  have c: "empty []" by (simp add: empty_def)
  have d: "\<forall>j<1. \<not> isl (window srv_hole ''CUSR0000SAM'' 2000 2023 j)"
    by (simp add: window_def fetched_def srv_hole_def run_defs)
  show ?thesis
    using a b c d
      empty_with_200_raises[OF a b c d,
        where ties = keep_ties and output_filename = "''CPI_MEDICAL_CARE_2000_2023''"
          and plot_title = "''CPI_MEDICAL_CARE''" and format = "''txt''" and plot = True
          and w = w0]
    by (simp add: w0_def)
qed

text \<open>
  C1, as the code has it. For a span of more than ten years in which no call raises, the
  Splitter makes \<open>\<lfloor>span / 10\<rfloor> + 1\<close> calls of the Request Executor for the
  ticker, the \<open>i\<close>-th with start year \<open>start_year + 10 * i\<close>, and returns the
  tables of these calls concatenated in call order, with the status of the last call.
\<close>

theorem single_series_long_span:
  assumes "end_year - start_year > 10"
    and "single_series srv start_year end_year ticker w = (Inr (df, status), w')"
  shows "\<exists>rs. length rs = nat ((end_year - start_year) div 10) + 1
            \<and> map (window srv ticker start_year end_year) [0..<length rs] = map Inr rs
            \<and> map seriesid (requests w') = map seriesid (requests w) @ replicate (length rs) ticker
            \<and> map startyear (requests w')
                = map startyear (requests w) @ map (\<lambda>i. start_year + 10 * int i) [0..<length rs]
            \<and> df = concat (map fst rs)
            \<and> status = snd (last rs)"
proof -
  let ?n = "iterations start_year end_year"
  let ?loop = "series_loop srv ticker end_year ?n start_year [] None w"
  from assms(2) have "fst (single_series srv start_year end_year ticker w) = Inr (df, status)"
    by simp
  then obtain dfs where loop: "fst ?loop = Inr (dfs, Some status)" and df: "df = concat dfs"
    by (auto simp: single_series_long_fst[OF assms(1)] split: sum.splits option.splits)
  from series_loop_windows[OF loop] obtain rs
    where rs: "map (window srv ticker start_year end_year) [0..<?n] = map Inr rs"
      and ok: "list_all (\<lambda>r. \<not> anomalous r) rs"
    by blast
  from rs have len: "length rs = ?n" by (metis length_map length_upt diff_zero)
  from series_loop_returns[OF rs ok, of "[]" None w] loop
  have dfs: "dfs = map fst rs" and st: "Some status = (if rs = [] then None else Some (snd (last rs)))"
    by simp_all
  have w': "w' = snd ?loop"
    using single_series_long_snd[OF assms(1), of srv ticker w] assms(2) by simp
  have reqs: "requests w' = requests w @ map (\<lambda>i. \<lparr>seriesid = ticker,
                 startyear = start_year + 10 * int i, endyear = end_year\<rparr>) [0..<?n]"
    using series_loop_requests[OF loop] w' by simp
  have "map seriesid (requests w') = map seriesid (requests w) @ replicate (length rs) ticker"
    by (simp add: reqs len comp_def map_replicate_const)
  moreover have "map startyear (requests w')
      = map startyear (requests w) @ map (\<lambda>i. start_year + 10 * int i) [0..<length rs]"
    by (simp add: reqs len comp_def)
  moreover have "status = snd (last rs)" using st by (simp split: if_splits)
  ultimately show ?thesis
    using rs len df dfs by (intro exI[of _ rs]) (simp add: iterations_def)
qed

theorem single_series_long_span_witness:
  "(2020::int) - 2000 > 10
   \<and> single_series srv_one 2000 2020 ''CUSR0000SAM'' w0
       = (Inr ([obs ''2020'' ''M01'' ''258.7'', obs ''2020'' ''M01'' ''258.7'',
                obs ''2020'' ''M01'' ''258.7''], 200),
          w0\<lparr>requests := [posted ''CUSR0000SAM'' 2000 2020, posted ''CUSR0000SAM'' 2010 2020,
                           posted ''CUSR0000SAM'' 2020 2020]\<rparr>)
   \<and> map startyear [posted ''CUSR0000SAM'' 2000 2020, posted ''CUSR0000SAM'' 2010 2020,
                      posted ''CUSR0000SAM'' 2020 2020] = [2000, 2010, 2020]"
proof -
  have a: "(2020::int) - 2000 > 10" by simp
  have b: "single_series srv_one 2000 2020 ''CUSR0000SAM'' w0
       = (Inr ([obs ''2020'' ''M01'' ''258.7'', obs ''2020'' ''M01'' ''258.7'',
                obs ''2020'' ''M01'' ''258.7''], 200),
          w0\<lparr>requests := [posted ''CUSR0000SAM'' 2000 2020, posted ''CUSR0000SAM'' 2010 2020,
                           posted ''CUSR0000SAM'' 2020 2020]\<rparr>)"
    by (simp add: single_series_def iterations_def eval_nat_numeral run_defs srv_one_def
          w0_def posted_def obs_def)
  show ?thesis
    using a b single_series_long_span[OF a b] by (simp add: posted_def)
qed

text \<open>
  The calls are not the partition into \<open>\<lceil>span / 10\<rceil>\<close> windows of at most ten
  years: for 2000 to 2020 there are three calls, not two, and every call asks for the
  years up to 2020, so the first one spans twenty years and the three overlap.
\<close>

theorem single_series_long_span_counterexample:
  "map startyear (requests (snd (single_series srv_one 2000 2020 ''CUSR0000SAM'' w0)))
     = [2000, 2010, 2020]
   \<and> map endyear (requests (snd (single_series srv_one 2000 2020 ''CUSR0000SAM'' w0)))
     = [2020, 2020, 2020]
   \<and> \<not> ten_year_partition 2000 2020
         (requests (snd (single_series srv_one 2000 2020 ''CUSR0000SAM'' w0)))"
  by (simp add: single_series_def iterations_def eval_nat_numeral run_defs srv_one_def
        w0_def ten_year_partition_def)




text \<open>
  C6. On a table that has rows and whose values all convert, the Cleaner returns,
  whatever the period codes are. Every input row is kept, and the date of each row is
  the parse, as year and month, of its year, a hyphen and its period code without the
  first character; where that does not parse the date is \<^verbatim>\<open>NaT\<close>. In particular
  a row with period \<^verbatim>\<open>M13\<close> gets \<^verbatim>\<open>NaT\<close>, whatever its year.
\<close>

theorem date_derivation:
  assumes "df \<noteq> []" and "\<forall>r\<in>set df. numeric (val r)"
  shows "\<exists>df'. clean_dataframe ties df = Inr df'
           \<and> length df' = length df
           \<and> mset (map (\<lambda>r. (year r, period r)) df') = mset (map (\<lambda>r. (year r, period r)) df)
           \<and> (\<forall>r\<in>set df'. date r = to_datetime (year r @ ''-'' @ drop 1 (period r)))
           \<and> (\<forall>r\<in>set df'. period r = ''M13'' \<longrightarrow> date r = NaT)"
proof -
  let ?df' = "map floated (sort_values ties (map assign_date df))"
  have run: "clean_dataframe ties df = Inr ?df'"
    using assms by (simp add: clean_dataframe_cases list_all_iff)
  have len: "length ?df' = length df" by simp
  have "mset ?df' = image_mset (\<lambda>r. floated (assign_date r)) (mset df)"
    by (simp add: multiset.map_comp comp_def)
  then have "image_mset (\<lambda>r. (year r, period r)) (mset ?df')
               = image_mset (\<lambda>r. (year r, period r)) (mset df)"
    by (simp add: multiset.map_comp comp_def)
  then have kept: "mset (map (\<lambda>r. (year r, period r)) ?df')
               = mset (map (\<lambda>r. (year r, period r)) df)"
    by (simp only: mset_map)
  have dates: "\<forall>r\<in>set ?df'. date r = to_datetime (year r @ ''-'' @ drop 1 (period r))"
    by auto
  have "\<forall>r\<in>set ?df'. period r = ''M13'' \<longrightarrow> date r = NaT"
  proof (intro ballI impI)
    fix r assume r: "r \<in> set ?df'" and p: "period r = ''M13''"
    from dates r have "date r = to_datetime (year r @ ''-'' @ drop 1 (period r))"
      by (rule bspec)
    also have "\<dots> = to_datetime (year r @ ''-13'')" by (simp add: p)
    finally show "date r = NaT" by (simp only: to_datetime_13)
  qed
  with run len kept dates show ?thesis by blast
qed

theorem date_derivation_witness:
  "raw3 \<noteq> [] \<and> clean_dataframe keep_ties raw3 = Inr cleaned3
   \<and> map period cleaned3 = [''M01'', ''M02'', ''M13'']
   \<and> map date cleaned3 = [Stamp 2020 1, Stamp 2020 2, NaT]"
proof -
  have a: "raw3 \<noteq> []" by (simp add: raw3_def)
  have b: "\<forall>r\<in>set raw3. numeric (val r)"
    by (simp add: raw3_def obs_def numeric_def float_defs)
  from date_derivation[OF a b, of keep_ties] a clean_raw3 show ?thesis
    by (simp add: cleaned3_def)
qed

text \<open>
  C7. The table the Cleaner returns is sorted ascending by date with the null dates
  last: the sort keys are ascending, and after a row with a null date only such rows
  follow. No row is dropped: the output has the input's rows, each with its date set
  and its value converted, and nothing else.
\<close>

theorem cleaned_sorted:
  assumes "clean_dataframe ties df = Inr df'"
  shows "sorted (map date_key df')
       \<and> (\<forall>i j. i \<le> j \<and> j < length df' \<and> date (df' ! i) = NaT \<longrightarrow> date (df' ! j) = NaT)
       \<and> length df' = length df
       \<and> mset df' = image_mset (\<lambda>r. floated (assign_date r)) (mset df)"
proof -
  from assms have df': "df' = map floated (sort_values ties (map assign_date df))"
    by (auto simp: clean_dataframe_cases split: if_splits)
  have srt: "sorted (map date_key df')"
    by (simp add: df' comp_def sorted_sort_values)
  have stamped: "date r \<noteq> Absent" if "r \<in> set df'" for r
    using that by (auto simp: df')
  have last: "date (df' ! j) = NaT"
    if "i \<le> j" "j < length df'" "date (df' ! i) = NaT" for i j
  proof -
    from srt that(1,2) have "date_key (df' ! i) \<le> date_key (df' ! j)"
      by (simp add: sorted_iff_nth_mono)
    moreover have "date (df' ! j) \<noteq> Absent" using that(2) by (simp add: stamped)
    ultimately show ?thesis
      using that(3) by (cases "date (df' ! j)") (simp_all add: date_key_def)
  qed
  have len: "length df' = length df" by (simp add: df')
  have "mset df' = image_mset (\<lambda>r. floated (assign_date r)) (mset df)"
    by (simp add: df' multiset.map_comp comp_def)
  with srt last len show ?thesis by blast
qed

theorem cleaned_sorted_witness:
  "clean_dataframe keep_ties raw3 = Inr cleaned3
   \<and> sorted (map date_key cleaned3)
   \<and> map date_key cleaned3 = [(0, 2020, 1), (0, 2020, 2), (1, 0, 0)]
   \<and> length cleaned3 = length raw3"
  using clean_raw3 cleaned_sorted[OF clean_raw3]
  by (simp add: cleaned3_def date_key_def)

text \<open>
  C9, as the code has it. The Cleaner raises the conversion error exactly when the table
  has rows and some value is a string that \<^verbatim>\<open>float\<close> rejects. The empty string
  is such a string: a table with an empty value raises.
\<close>

theorem value_coercion_raises:
  "(clean_dataframe ties df = Inl float_error
      \<longleftrightarrow> df \<noteq> [] \<and> (\<exists>r\<in>set df. \<exists>s. val r = Str s \<and> py_float s = None))
   \<and> (df \<noteq> [] \<and> (\<exists>r\<in>set df. val r = Str []) \<longrightarrow> clean_dataframe ties df = Inl float_error)"
proof -
  have e: "py_float [] = None"
    by (simp add: py_float_def decimal_def signed_def strip_def)
  have iff: "clean_dataframe ties df = Inl float_error
      \<longleftrightarrow> df \<noteq> [] \<and> (\<exists>r\<in>set df. \<exists>s. val r = Str s \<and> py_float s = None)"
    by (auto simp: clean_dataframe_cases float_error_def list_all_iff numeric_iff)
  from e iff show ?thesis by auto
qed

theorem value_coercion_raises_witness:
  "clean_dataframe keep_ties [obs ''2020'' ''M01'' ''258.7'', obs ''2020'' ''M02'' ''-'']
     = Inl float_error
   \<and> py_float ''-'' = None"
proof -
  have "py_float ''-'' = None" by (simp add: float_defs)
  then show ?thesis
    using value_coercion_raises[of keep_ties
            "[obs ''2020'' ''M01'' ''258.7'', obs ''2020'' ''M02'' ''-'']"]
    by (simp add: obs_def)
qed

text \<open>
  A table whose only value is the empty string is not cleaned: the conversion raises.
\<close>

theorem value_coercion_raises_counterexample:
  "clean_dataframe keep_ties [obs ''2020'' ''M01'' []] = Inl float_error"
  by (simp add: clean_defs float_defs)

text \<open>
  C10. Take a span of more than ten years in which every call returns and none returns
  an empty table with status 200, and let some window other than the last fail with a
  status that is not 200. The Splitter does not raise and keeps no trace of the failure:
  it returns the concatenation of all tables, to which the failed window contributes
  nothing, and the status of the last window alone. If the concatenated table has rows
  and the Cleaner accepts it, the Facade's check lets it pass and the operation ends
  without an error, having written the cleaned, partly missing series to the file.
\<close>

theorem failed_window_goes_unnoticed:
  assumes "end_year - start_year > 10"
    and "map (window srv ticker start_year end_year) [0..<iterations start_year end_year]
           = map Inr rs"
    and "list_all (\<lambda>r. \<not> anomalous r) rs"
    and "Suc j < length rs" and "rs ! j = ([], code)" and "code \<noteq> 200"
    and "concat (map fst rs) \<noteq> []"
    and "clean_dataframe ties (concat (map fst rs)) = Inr cleaned"
  shows "fst (single_series srv start_year end_year ticker w)
           = Inr (concat (map fst rs), snd (last rs))
       \<and> concat (map fst rs)
           = concat (map fst (take j rs)) @ concat (map fst (drop (Suc j) rs))
       \<and> fst (process_cpi_series srv ties start_year end_year ticker output_filename plot_title
                format plot w) = Inr ()
       \<and> files (snd (process_cpi_series srv ties start_year end_year ticker output_filename
                        plot_title format plot w))
           = files (snd (save_dataframe cleaned format output_filename w))"
proof -
  from assms(4) have ne: "rs \<noteq> []" by auto
  have run: "fst (single_series srv start_year end_year ticker w)
               = Inr (concat (map fst rs), snd (last rs))"
    using series_loop_returns[OF assms(2,3), of "[]" None w] ne
    by (simp add: single_series_long_fst[OF assms(1)])
  have guard: "\<not> (empty (concat (map fst rs)) \<and> snd (last rs) = 200)"
    using assms(7) by (simp add: empty_def)
  from assms(4) have "rs = take j rs @ rs ! j # drop (Suc j) rs"
    by (simp add: id_take_nth_drop)
  then have "concat (map fst rs)
      = concat (map fst (take j rs @ rs ! j # drop (Suc j) rs))" by simp
  also have "\<dots> = concat (map fst (take j rs)) @ concat (map fst (drop (Suc j) rs))"
    by (simp add: assms(5))
  finally have gap: "concat (map fst rs)
      = concat (map fst (take j rs)) @ concat (map fst (drop (Suc j) rs))" .
  from run gap process_writes[OF run guard assms(8)] show ?thesis by blast
qed

theorem failed_window_goes_unnoticed_witness:
  "(2023::int) - 2000 > 10
   \<and> map (window srv_gap ''CUSR0000SAM'' 2000 2023) [0, 1, 2]
       = [Inr ([], 503),
          Inr ([obs ''2020'' ''M02'' ''259.0'', obs ''2020'' ''M01'' ''258.7''], 200),
          Inr ([obs ''2020'' ''M02'' ''259.0'', obs ''2020'' ''M01'' ''258.7''], 200)]
   \<and> fst (single_series srv_gap 2000 2023 ''CUSR0000SAM'' w0)
       = Inr ([obs ''2020'' ''M02'' ''259.0'', obs ''2020'' ''M01'' ''258.7'',
               obs ''2020'' ''M02'' ''259.0'', obs ''2020'' ''M01'' ''258.7''], 200)
   \<and> fst (process_cpi_series srv_gap keep_ties 2000 2023 ''CUSR0000SAM'' ''CPI_MEDICAL_CARE_2000_2023''
            ''CPI_MEDICAL_CARE'' ''txt'' True w0) = Inr ()
   \<and> map fst (files (snd (process_cpi_series srv_gap keep_ties 2000 2023 ''CUSR0000SAM''
            ''CPI_MEDICAL_CARE_2000_2023'' ''CPI_MEDICAL_CARE'' ''txt'' True w0)))
       = [''CPI_MEDICAL_CARE_2000_2023.txt'']"
proof -
  let ?two = "[obs ''2020'' ''M02'' ''259.0'', obs ''2020'' ''M01'' ''258.7'']"
  let ?rs = "[([], 503), (?two, 200), (?two, 200)]"
  let ?cleaned = "[\<lparr>year = ''2020'', period = ''M01'', val = Flt (Finite (2587 / 10)),
                     date = Stamp 2020 1\<rparr>,
                   \<lparr>year = ''2020'', period = ''M01'', val = Flt (Finite (2587 / 10)),
                     date = Stamp 2020 1\<rparr>,
                   \<lparr>year = ''2020'', period = ''M02'', val = Flt (Finite 259),
                     date = Stamp 2020 2\<rparr>,
                   \<lparr>year = ''2020'', period = ''M02'', val = Flt (Finite 259),
                     date = Stamp 2020 2\<rparr>]"
  have a: "(2023::int) - 2000 > 10" by simp
  have n: "iterations 2000 2023 = 3" by (simp add: iterations_def)
  have win: "map (window srv_gap ''CUSR0000SAM'' 2000 2023) [0, 1, 2] = map Inr ?rs"
    by (simp add: window_def fetched_def srv_gap_def run_defs)
  have upt: "[0..<3] = [0, 1, 2::nat]" by (simp add: upt_rec)
  have b: "map (window srv_gap ''CUSR0000SAM'' 2000 2023) [0..<iterations 2000 2023]
             = map Inr ?rs"
    using win by (simp only: n upt)
  have c: "list_all (\<lambda>r. \<not> anomalous r) ?rs" by (simp add: anomalous_def empty_def obs_def)
  have d: "Suc 0 < length ?rs" by simp
  have e: "?rs ! 0 = ([], 503)" by simp
  have f: "(503::int) \<noteq> 200" by simp
  have g: "concat (map fst ?rs) \<noteq> []" by simp
  have h: "clean_dataframe keep_ties (concat (map fst ?rs)) = Inr ?cleaned"
    by (simp add: clean_defs float_defs)
  from failed_window_goes_unnoticed[OF a b c d e f g h,
         where w = w0 and output_filename = "''CPI_MEDICAL_CARE_2000_2023''"
           and plot_title = "''CPI_MEDICAL_CARE''" and format = "''txt''" and plot = True]
    a win
  show ?thesis by (simp add: save_dataframe_def w0_def)
qed

end
